theory Spec2Isabelle
  imports Complex_Main
begin

section \<open>Floating-point values of Python and numpy\<close>

text \<open>
  The source computes with IEEE doubles (Python \<open>float\<close>, numpy \<open>float64\<close>).  A value is
  modelled as a real number or one of the three special values that the source can
  produce or receive: the two infinities and not-a-number.  Finite arithmetic is exact
  (no rounding, no overflow) and zero carries no sign; everything else follows IEEE 754
  as numpy implements it: an invalid operation yields \<open>NaN\<close> (with a warning, never an
  exception), a finite non-zero value divided by zero yields an infinity, and every
  comparison with \<open>NaN\<close> is false.
\<close>

datatype npfloat = Fin real | PInf | NInf | NaN

fun fneg :: "npfloat \<Rightarrow> npfloat" where
  "fneg (Fin a) = Fin (- a)"
| "fneg PInf = NInf"
| "fneg NInf = PInf"
| "fneg NaN = NaN"

fun fadd :: "npfloat \<Rightarrow> npfloat \<Rightarrow> npfloat" where
  "fadd (Fin a) (Fin b) = Fin (a + b)"
| "fadd NaN _ = NaN"
| "fadd _ NaN = NaN"
| "fadd PInf NInf = NaN"
| "fadd NInf PInf = NaN"
| "fadd PInf _ = PInf"
| "fadd _ PInf = PInf"
| "fadd NInf _ = NInf"
| "fadd _ NInf = NInf"

definition fsub :: "npfloat \<Rightarrow> npfloat \<Rightarrow> npfloat" where
  "fsub a b = fadd a (fneg b)"

fun fmul :: "npfloat \<Rightarrow> npfloat \<Rightarrow> npfloat" where
  "fmul (Fin a) (Fin b) = Fin (a * b)"
| "fmul NaN _ = NaN"
| "fmul _ NaN = NaN"
| "fmul PInf (Fin b) = (if b = 0 then NaN else if 0 < b then PInf else NInf)"
| "fmul NInf (Fin b) = (if b = 0 then NaN else if 0 < b then NInf else PInf)"
| "fmul (Fin a) PInf = (if a = 0 then NaN else if 0 < a then PInf else NInf)"
| "fmul (Fin a) NInf = (if a = 0 then NaN else if 0 < a then NInf else PInf)"
| "fmul PInf PInf = PInf"
| "fmul NInf NInf = PInf"
| "fmul PInf NInf = NInf"
| "fmul NInf PInf = NInf"

text \<open>numpy's division: no exception, the IEEE result.\<close>

fun fdiv :: "npfloat \<Rightarrow> npfloat \<Rightarrow> npfloat" where
  "fdiv (Fin a) (Fin b) =
     (if b \<noteq> 0 then Fin (a / b)
      else if a = 0 then NaN else if 0 < a then PInf else NInf)"
| "fdiv NaN _ = NaN"
| "fdiv _ NaN = NaN"
| "fdiv (Fin a) PInf = Fin 0"
| "fdiv (Fin a) NInf = Fin 0"
| "fdiv PInf (Fin b) = (if 0 \<le> b then PInf else NInf)"
| "fdiv NInf (Fin b) = (if 0 \<le> b then NInf else PInf)"
| "fdiv PInf PInf = NaN"
| "fdiv PInf NInf = NaN"
| "fdiv NInf PInf = NaN"
| "fdiv NInf NInf = NaN"

fun fabs :: "npfloat \<Rightarrow> npfloat" where
  "fabs (Fin a) = Fin \<bar>a\<bar>"
| "fabs PInf = PInf"
| "fabs NInf = PInf"
| "fabs NaN = NaN"

fun flt :: "npfloat \<Rightarrow> npfloat \<Rightarrow> bool" where
  "flt (Fin a) (Fin b) = (a < b)"
| "flt NaN _ = False"
| "flt _ NaN = False"
| "flt _ NInf = False"
| "flt PInf _ = False"
| "flt NInf _ = True"
| "flt _ PInf = True"

fun fle :: "npfloat \<Rightarrow> npfloat \<Rightarrow> bool" where
  "fle (Fin a) (Fin b) = (a \<le> b)"
| "fle NaN _ = False"
| "fle _ NaN = False"
| "fle NInf _ = True"
| "fle _ PInf = True"
| "fle _ NInf = False"
| "fle PInf _ = False"

fun feq :: "npfloat \<Rightarrow> npfloat \<Rightarrow> bool" where
  "feq (Fin a) (Fin b) = (a = b)"
| "feq PInf PInf = True"
| "feq NInf NInf = True"
| "feq _ _ = False"

text \<open>The numpy functions the source calls.\<close>

fun np_sin :: "npfloat \<Rightarrow> npfloat" where
  "np_sin (Fin a) = Fin (sin a)"
| "np_sin _ = NaN"

fun np_tan :: "npfloat \<Rightarrow> npfloat" where
  "np_tan (Fin a) = Fin (tan a)"
| "np_tan _ = NaN"

fun np_arctan :: "npfloat \<Rightarrow> npfloat" where
  "np_arctan (Fin a) = Fin (arctan a)"
| "np_arctan PInf = Fin (pi / 2)"
| "np_arctan NInf = Fin (- (pi / 2))"
| "np_arctan NaN = NaN"

fun np_arcsin :: "npfloat \<Rightarrow> npfloat" where
  "np_arcsin (Fin a) = (if - 1 \<le> a \<and> a \<le> 1 then Fin (arcsin a) else NaN)"
| "np_arcsin _ = NaN"

definition np_rad2deg :: "npfloat \<Rightarrow> npfloat" where
  "np_rad2deg x = fmul x (Fin (180 / pi))"

definition np_deg2rad :: "npfloat \<Rightarrow> npfloat" where
  "np_deg2rad x = fmul x (Fin (pi / 180))"

text \<open>
  Python's own division of two \<open>float\<close> objects raises where numpy would return an
  infinity or \<open>NaN\<close>.
\<close>

datatype py_error = ZeroDivisionError | TypeError | AttributeError

definition py_div :: "npfloat \<Rightarrow> npfloat \<Rightarrow> py_error + npfloat" where
  "py_div a b = (if feq b (Fin 0) then Inl ZeroDivisionError else Inr (fdiv a b))"


section \<open>The energy-angle converter (dccm.py)\<close>

text \<open>The module's constants.\<close>

definition si_111_dspacing :: real where
  "si_111_dspacing = 3.1356011499587773"

definition default_dspacing :: real where
  "default_dspacing = si_111_dspacing"

text \<open>
  \<open>DCCMEnergy.energyToSi111BraggAngle\<close>.  The argument is a Python \<open>float\<close>, so the
  first division is Python's and raises at zero; the quotient is a finite non-zero
  constant away from \<open>np.arcsin\<close>, which returns \<open>NaN\<close> outside its domain.
\<close>

definition energyToSi111BraggAngle :: "npfloat \<Rightarrow> py_error + npfloat" where
  "energyToSi111BraggAngle energy =
     (let dspacing = 3.13560114 in
      case py_div (Fin 12398.419) energy of
        Inl e \<Rightarrow> Inl e
      | Inr q \<Rightarrow> Inr (np_rad2deg (np_arcsin (fdiv q (fmul (Fin 2) (Fin dspacing))))))"

text \<open>
  \<open>DCCMEnergy.thetaToSi111energy\<close>.  The divisor comes out of \<open>np.sin\<close>, so the
  division is numpy's.
\<close>

definition thetaToSi111energy :: "npfloat \<Rightarrow> npfloat" where
  "thetaToSi111energy theta =
     (let dspacing = 3.13560114 in
      fdiv (Fin 12398.419)
           (fmul (fmul (Fin 2) (Fin dspacing)) (np_sin (np_deg2rad theta))))"

section \<open>The two-rail mechanism (ladm.py)\<close>

subsection \<open>Geometry\<close>

definition alpha_r :: real where
  "alpha_r = 63 * pi / 180"

definition r :: real where
  "r = 2960.0"

definition R :: real where
  "R = 6735.0"

definition alpha_cos :: real where
  "alpha_cos = cos (27 * pi / 180)"

text \<open>
  \<open>ThetaToMotors(theta, samz_offset=0)\<close>: the rail targets and the depth offset.
  The sample offset is accepted and not used.  Every operand of a division has passed
  through \<open>np.sin\<close>, so the divisions are numpy's and do not raise.
\<close>

definition ThetaToMotors :: "npfloat \<Rightarrow> npfloat \<Rightarrow> npfloat \<times> npfloat \<times> npfloat" where
  "ThetaToMotors theta samz_offset =
     (let theta = fdiv (fmul theta (Fin pi)) (Fin 180);
          x1 = fdiv (fmul (Fin r) (np_sin theta))
                    (fmul (np_sin (Fin alpha_r)) (np_sin (fadd (Fin alpha_r) theta)));
          x2 = fdiv (fmul (Fin R) (np_sin theta))
                    (fmul (np_sin (Fin alpha_r)) (np_sin (fadd (Fin alpha_r) theta)));
          dz = fsub (fdiv (Fin r) (np_sin (Fin alpha_r)))
                    (fdiv (fmul x1 (np_sin (Fin alpha_r))) (np_sin theta));
          dz = (if feq theta (Fin 0) then Fin 0 else dz)
      in (x1, x2, dz))"

definition y1ToGamma :: "npfloat \<Rightarrow> npfloat" where
  "y1ToGamma y1 =
     (let gamma = np_arctan (fdiv y1 (Fin r));
          gamma = fdiv (fmul gamma (Fin 180)) (Fin pi)
      in gamma)"

definition y2ToGamma :: "npfloat \<Rightarrow> npfloat" where
  "y2ToGamma y2 =
     (let gamma = np_arctan (fdiv y2 (Fin R));
          gamma = fdiv (fmul gamma (Fin 180)) (Fin pi)
      in gamma)"

definition x1ToTheta :: "npfloat \<Rightarrow> npfloat \<Rightarrow> npfloat" where
  "x1ToTheta x1 samz_offset =
     (let theta = np_arctan
            (fdiv (fmul x1 (fmul (np_sin (Fin alpha_r)) (np_sin (Fin alpha_r))))
                  (fsub (fsub (Fin r) (fmul samz_offset (Fin alpha_cos)))
                        (fdiv (fmul x1 (np_sin (fmul (Fin 2) (Fin alpha_r)))) (Fin 2))));
          theta = fdiv (fmul theta (Fin 180)) (Fin pi)
      in theta)"

definition x2ToTheta :: "npfloat \<Rightarrow> npfloat \<Rightarrow> npfloat" where
  "x2ToTheta x2 samz_offset =
     (let theta = np_arctan
            (fdiv (fmul x2 (fmul (np_sin (Fin alpha_r)) (np_sin (Fin alpha_r))))
                  (fsub (fsub (Fin R) (fmul samz_offset (Fin alpha_cos)))
                        (fdiv (fmul x2 (np_sin (fmul (Fin 2) (Fin alpha_r)))) (Fin 2))));
          theta = fdiv (fmul theta (Fin 180)) (Fin pi)
      in theta)"

definition xTox12 :: "npfloat \<Rightarrow> npfloat" where
  "xTox12 x = fdiv x (np_sin (Fin alpha_r))"

definition xToz :: "npfloat \<Rightarrow> npfloat" where
  "xToz x = fdiv x (np_tan (Fin alpha_r))"


subsection \<open>The controller and its collaborators\<close>

text \<open>
  The motors are collaborators outside the controller.  What the controller does to them
  is recorded as the list of calls it makes, in order; what it reads from them is a
  parameter: \<open>hw tr a\<close> is the position that axis \<open>a\<close> reports once the calls \<open>tr\<close> have been
  made.  Nothing is assumed about how a motor answers a call.  Printing and the status
  table write to the terminal only and are left out of the list.
\<close>

datatype axis = X1 | X2 | Y1 | Y2 | Z | Theta

datatype theta_readback =
    Quad npfloat npfloat npfloat npfloat
  | Angle npfloat

datatype cmd =
    Mv axis npfloat
  | Mvr axis npfloat
  | Wait axis
  | Stop axis
  | PutThetaPV theta_readback
  | LogDebug

type_synonym hardware = "cmd list \<Rightarrow> axis \<Rightarrow> npfloat"

text \<open>
  What \<open>self.theta.position()\<close> hands back: the object \<open>np.nan\<close> itself, which is what
  \<open>wmTheta\<close> returns for an undefined angle and what \<open>is np.nan\<close> recognises, or any
  other float.
\<close>

datatype position = NpNan | Float npfloat

text \<open>
  The controller's own attributes.  The two virtual motors and the two soft limits are
  \<open>None\<close> after construction and are attached later; a virtual motor is represented by
  what the controller asks of it (the theta motor's position, the horizontal motor's
  name).
\<close>

record LADM =
  self_theta :: "(cmd list \<Rightarrow> position) option"
  self_XT :: "string option"
  lowlimX :: "npfloat option"
  hilimX :: "npfloat option"

definition waitAll :: "cmd list" where
  "waitAll = [Wait Z, Wait X1, Wait X2]"

definition stop :: "cmd list" where
  "stop = [Stop X1, Stop X2, Stop Y1, Stop Y2, Stop Z]"

text \<open>
  A \<open>try\<close> block whose only handler catches \<open>KeyboardInterrupt\<close> and calls \<open>stop\<close>.
  The interrupt is asynchronous: \<open>Some k\<close> says that it arrives when \<open>k\<close> calls of the
  block have been made (at or after the last one when \<open>k\<close> is larger), \<open>None\<close> that it
  does not arrive.
\<close>

definition try_interruptible :: "cmd list \<Rightarrow> nat option \<Rightarrow> cmd list" where
  "try_interruptible body intr =
     (case intr of None \<Rightarrow> body | Some k \<Rightarrow> take k body @ stop)"

definition wmTheta :: "hardware \<Rightarrow> cmd list \<Rightarrow> npfloat \<Rightarrow> theta_readback" where
  "wmTheta hw tr samz_offset =
     (let theta1 = x1ToTheta (hw tr X1) samz_offset;
          theta2 = x2ToTheta (hw tr X2) samz_offset;
          tolerance = Fin 0.01
      in if flt (Fin 0) samz_offset then
           (let thetar = np_arctan (fdiv (fsub (hw tr X2) (hw tr X1)) (fsub (Fin R) (Fin r)));
                theta = fdiv (fmul thetar (Fin 180)) (Fin pi);
                ca_samz_offset =
                  fdiv (fneg (fadd (fsub (fdiv (fmul (hw tr X1)
                                                  (fmul (np_sin (Fin alpha_r)) (np_sin (Fin alpha_r))))
                                                (np_tan thetar))
                                          (Fin r))
                                    (fdiv (fmul (hw tr X1) (np_sin (fmul (Fin 2) (Fin alpha_r))))
                                          (Fin 2))))
                       (Fin alpha_cos)
            in Quad theta1 theta2 samz_offset ca_samz_offset)
         else if flt (fabs (fsub theta1 theta2)) tolerance then Angle theta1
         else Angle NaN)"

text \<open>
  \<open>LADM.__theta_movement\<close>.  The current depth is read before the \<open>try\<close>; the
  \<open>finally\<close> clause publishes the readback after whatever was done.
\<close>

definition theta_movement ::
  "hardware \<Rightarrow> cmd list \<Rightarrow> npfloat \<Rightarrow> npfloat \<Rightarrow> nat option \<Rightarrow> cmd list" where
  "theta_movement hw tr theta samz_offset intr =
     (case ThetaToMotors theta samz_offset of (x1_var, x2_var, z_var) \<Rightarrow>
      let z_now = hw tr Z;
          issued = try_interruptible
            (if flt z_now z_var then
               [Mv Z z_var, Wait Z, Mv X1 x1_var, Mv X2 x2_var] @ waitAll
             else
               [Mv X1 x1_var, Mv X2 x2_var, Wait X1, Wait X2, Mv Z z_var] @ waitAll)
            intr
      in issued @ [PutThetaPV (wmTheta hw (tr @ issued) (Fin 0))])"

text \<open>\<open>LADM.status\<close> touches both virtual motors and then only reads and prints.\<close>

definition status :: "LADM \<Rightarrow> py_error + unit" where
  "status s =
     (if self_theta s = None then Inl AttributeError
      else if self_XT s = None then Inl AttributeError
      else Inr ())"

datatype outcome =
    Message npfloat npfloat npfloat npfloat npfloat npfloat
  | Returned

text \<open>
  \<open>LADM.moveTheta\<close>.  Each of the two possible sub-moves has its own \<open>try\<close> block,
  hence its own interrupt.  The result is the calls made and how the method ended.
\<close>

definition moveTheta ::
  "LADM \<Rightarrow> hardware \<Rightarrow> cmd list \<Rightarrow> npfloat \<Rightarrow> npfloat \<Rightarrow> nat option \<Rightarrow> nat option
     \<Rightarrow> cmd list \<times> (py_error + outcome)" where
  "moveTheta s hw tr theta samz_offset intr1 intr2 =
     (case self_theta s of
        None \<Rightarrow> ([], Inl AttributeError)
      | Some position \<Rightarrow>
          (case position tr of
             NpNan \<Rightarrow>
               (let theta1 = x1ToTheta (hw tr X1) samz_offset;
                    theta2 = x2ToTheta (hw tr X2) samz_offset
                in case ThetaToMotors theta1 (Fin 0) of (x1_th1, x2_th1, z_th1) \<Rightarrow>
                   case ThetaToMotors theta2 (Fin 0) of (x1_th2, x2_th2, z_th2) \<Rightarrow>
                     ([], Inr (Message theta1 x2_th1 z_th1 theta2 x1_th2 z_th2)))
           | Float theta_now \<Rightarrow>
               (let cmds =
                  (if fle (fabs (fsub theta theta_now)) (Fin 28) then
                     theta_movement hw tr theta samz_offset intr1
                   else
                     (let theta_1 = fdiv (fadd theta theta_now) (Fin 2);
                          first = theta_movement hw tr theta_1 samz_offset intr1 @ [Wait Theta]
                      in first @ theta_movement hw (tr @ first) theta samz_offset intr2))
                in (cmds, case status s of Inl e \<Rightarrow> Inl e | Inr _ \<Rightarrow> Inr Returned))))"

datatype gamma_message = GammaMessage npfloat npfloat npfloat

text \<open>\<open>LADM.wmGamma\<close>: the value and the message built from it and the two heights.\<close>

definition wmGamma :: "hardware \<Rightarrow> cmd list \<Rightarrow> npfloat \<times> gamma_message" where
  "wmGamma hw tr =
     (let gamma1 = y1ToGamma (hw tr Y1);
          gamma2 = y1ToGamma (hw tr Y2);
          gamma = fsub gamma2 gamma1
      in (gamma, GammaMessage gamma (hw tr Y1) (hw tr Y2)))"

text \<open>
  \<open>LADM.moveX\<close>.  The limit test is outside the \<open>try\<close>; comparing a float with a
  limit that was never set raises \<open>TypeError\<close>, and \<open>or\<close> does not look at the upper
  limit when the lower one already refuses.  The refusal's text names the horizontal
  virtual motor.
\<close>

definition moveX ::
  "LADM \<Rightarrow> hardware \<Rightarrow> cmd list \<Rightarrow> npfloat \<Rightarrow> nat option \<Rightarrow> cmd list \<times> (py_error + unit)" where
  "moveX s hw tr x intr =
     (let refuse = (case self_XT s of
                      None \<Rightarrow> ([], Inl AttributeError)
                    | Some _ \<Rightarrow> ([LogDebug], Inr ()));
          move =
            (let x1_var = xTox12 x;
                 x2_var = x1_var;
                 z_var = xToz x;
                 z_now = hw tr Z
             in (try_interruptible
                   (if flt z_now z_var then
                      [Mv Z z_var, Wait Z, Mv X1 x1_var, Mv X2 x2_var]
                    else
                      [Mv X1 x1_var, Mv X2 x2_var, Wait X1, Wait X2])
                   intr,
                 Inr ()))
      in case lowlimX s of
           None \<Rightarrow> ([], Inl TypeError)
         | Some lo \<Rightarrow>
             if fle x lo then refuse
             else (case hilimX s of
                     None \<Rightarrow> ([], Inl TypeError)
                   | Some hi \<Rightarrow> if fle hi x then refuse else move))"

text \<open>\<open>LADM.tweakH\<close>: the relative move; the depth moves by its distance from the reading.\<close>

definition tweakH ::
  "LADM \<Rightarrow> hardware \<Rightarrow> cmd list \<Rightarrow> npfloat \<Rightarrow> nat option \<Rightarrow> cmd list \<times> (py_error + unit)" where
  "tweakH s hw tr x intr =
     (let x1_var = xTox12 x;
          x2_var = xTox12 x;
          z_var = xToz x;
          z_now = hw tr Z
      in (try_interruptible
            (if flt z_now z_var then
               [Mvr Z (fsub z_var z_now), Wait Z, Mvr X1 x1_var, Mvr X2 x2_var]
             else
               [Mvr X1 x1_var, Mvr X2 x2_var, Wait X1, Wait X2, Mvr Z (fsub z_var z_now)])
            intr,
          Inr ()))"


subsection \<open>Reading a list of calls\<close>

fun is_mv :: "axis \<Rightarrow> cmd \<Rightarrow> bool" where
  "is_mv a (Mv b _) = (a = b)"
| "is_mv a _ = False"

fun is_wait :: "axis \<Rightarrow> cmd \<Rightarrow> bool" where
  "is_wait a (Wait b) = (a = b)"
| "is_wait a _ = False"

fun is_move :: "cmd \<Rightarrow> bool" where
  "is_move (Mv _ _) = True"
| "is_move (Mvr _ _) = True"
| "is_move _ = False"

fun is_put :: "cmd \<Rightarrow> bool" where
  "is_put (PutThetaPV _) = True"
| "is_put _ = False"

text \<open>
  \<open>preceded_by P Q cs\<close>: no call satisfying \<open>Q\<close> is made in \<open>cs\<close> until a call satisfying
  \<open>P\<close> has been made.
\<close>

fun preceded_by :: "('a \<Rightarrow> bool) \<Rightarrow> ('a \<Rightarrow> bool) \<Rightarrow> 'a list \<Rightarrow> bool" where
  "preceded_by P Q [] = True"
| "preceded_by P Q (c # cs) =
     (if Q c then False else if P c then True else preceded_by P Q cs)"


section \<open>Properties\<close>

subsection \<open>Comparisons and lists of calls\<close>

lemma preceded_by_iff:
  "preceded_by P Q cs \<longleftrightarrow> (\<forall>i < length cs. Q (cs ! i) \<longrightarrow> (\<exists>j < i. P (cs ! j)))"
proof (induction cs)
  case Nil
  then show ?case by simp
next
  case (Cons c cs)
  show ?case
  proof (cases "Q c")
    case True
    then have "\<not> (\<forall>i < length (c # cs). Q ((c # cs) ! i) \<longrightarrow> (\<exists>j < i. P ((c # cs) ! j)))"
      by (auto intro!: exI [of _ 0])
    with True show ?thesis by simp
  next
    case noQ: False
    show ?thesis
    proof (cases "P c")
      case True
      have "\<forall>i < length (c # cs). Q ((c # cs) ! i) \<longrightarrow> (\<exists>j < i. P ((c # cs) ! j))"
      proof (intro allI impI)
        fix i assume "i < length (c # cs)" and q: "Q ((c # cs) ! i)"
        with noQ have "0 < i" by (cases i) auto
        with True show "\<exists>j < i. P ((c # cs) ! j)" by (intro exI [of _ 0]) simp
      qed
      with True noQ show ?thesis by simp
    next
      case False
      have "(\<forall>i < length (c # cs). Q ((c # cs) ! i) \<longrightarrow> (\<exists>j < i. P ((c # cs) ! j)))
              \<longleftrightarrow> (\<forall>i < length cs. Q (cs ! i) \<longrightarrow> (\<exists>j < i. P (cs ! j)))"
        (is "?L \<longleftrightarrow> ?R")
      proof
        assume l: ?L
        show ?R
        proof (intro allI impI)
          fix i assume "i < length cs" and "Q (cs ! i)"
          with l obtain j where j: "j < Suc i" "P ((c # cs) ! j)"
            by (metis Suc_less_eq length_Cons nth_Cons_Suc)
          with False obtain j' where "j = Suc j'" by (cases j) auto
          with j show "\<exists>j < i. P (cs ! j)" by auto
        qed
      next
        assume r: ?R
        show ?L
        proof (intro allI impI)
          fix i assume i: "i < length (c # cs)" and q: "Q ((c # cs) ! i)"
          with noQ obtain i' where i': "i = Suc i'" by (cases i) auto
          with i q r obtain j where "j < i'" "P (cs ! j)" by auto
          with i' show "\<exists>j < i. P ((c # cs) ! j)"
            by (intro exI [of _ "Suc j"]) simp
        qed
      qed
      with False noQ Cons.IH show ?thesis by simp
    qed
  qed
qed

lemma preceded_by_take: "preceded_by P Q cs \<Longrightarrow> preceded_by P Q (take k cs)"
proof (induction cs arbitrary: k)
  case Nil
  then show ?case by simp
next
  case (Cons c cs)
  then show ?case by (cases k) (auto split: if_splits)
qed

lemma preceded_by_append:
  "preceded_by P Q cs \<Longrightarrow> \<forall>c \<in> set ds. \<not> Q c \<Longrightarrow> preceded_by P Q (cs @ ds)"
proof (induction cs)
  case Nil
  then show ?case by (induction ds) auto
next
  case (Cons c cs)
  then show ?case by (auto split: if_splits)
qed

lemma preceded_by_interrupted:
  assumes "preceded_by P Q body" and "\<forall>c \<in> set stop. \<not> Q c" and "\<forall>c \<in> set rest. \<not> Q c"
  shows "preceded_by P Q (try_interruptible body intr @ rest)"
proof (cases intr)
  case None
  then show ?thesis
    using assms by (simp add: try_interruptible_def preceded_by_append)
next
  case (Some k)
  have "preceded_by P Q (take k body @ (stop @ rest))"
    using assms by (intro preceded_by_append preceded_by_take) auto
  with Some show ?thesis by (simp add: try_interruptible_def)
qed

lemma fle_not_flt: "fle a b \<Longrightarrow> \<not> flt b a"
  by (cases a; cases b) auto

lemma flt_fle: "flt a b \<Longrightarrow> fle a b"
  by (cases a; cases b) auto



lemma agree_iff:
  "flt (fabs (fsub a b)) (Fin c) \<longleftrightarrow> (\<exists>t1 t2. a = Fin t1 \<and> b = Fin t2 \<and> \<bar>t1 - t2\<bar> < c)"
  by (cases a; cases b) (simp_all add: fsub_def)

lemma filter_take_none: "\<forall>c \<in> set cs. \<not> P c \<Longrightarrow> filter P (take k cs) = []"
  by (auto simp: filter_empty_conv dest: in_set_takeD)

subsection \<open>The rail geometry\<close>

lemma alpha_r_range: "0 < alpha_r \<and> alpha_r < pi"
  unfolding alpha_r_def using pi_gt_zero by auto

lemma sin_alpha_r_pos: "0 < sin alpha_r"
  using alpha_r_range by (simp add: sin_gt_zero)

lemma rail_denominator:
  fixes a t \<rho> :: real
  assumes sa: "sin a \<noteq> 0" and st: "sin (a + t) \<noteq> 0"
  shows "\<rho> - (\<rho> * sin t / (sin a * sin (a + t))) * sin (2 * a) / 2
           = \<rho> * sin a * cos t / sin (a + t)"
proof -
  have "\<rho> - (\<rho> * sin t / (sin a * sin (a + t))) * sin (2 * a) / 2
          = \<rho> - \<rho> * sin t * cos a / sin (a + t)"
    using sa by (simp add: sin_double)
  also have "\<dots> = \<rho> * (sin (a + t) - sin t * cos a) / sin (a + t)"
    using st by (simp add: field_simps)
  also have "sin (a + t) - sin t * cos a = sin a * cos t"
    by (simp add: sin_add)
  finally show ?thesis by (simp add: mult.assoc)
qed

lemma rail_quotient:
  fixes a t \<rho> :: real
  assumes sa: "sin a \<noteq> 0" and st: "sin (a + t) \<noteq> 0" and ct: "cos t \<noteq> 0" and rho: "\<rho> \<noteq> 0"
  shows "(\<rho> * sin t / (sin a * sin (a + t))) * (sin a * sin a)
           / (\<rho> * sin a * cos t / sin (a + t)) = tan t"
  using assms by (simp add: tan_def field_simps)

lemma radians_mono:
  fixes a b :: real
  assumes "a < b"
  shows "a * pi / 180 < b * pi / 180"
  using assms pi_gt_zero by (simp add: divide_strict_right_mono)

lemma sweep_angle_range:
  fixes theta :: real
  assumes "- 63 < theta" and "theta < 90"
  shows "0 < sin (alpha_r + theta * pi / 180)" and "0 < cos (theta * pi / 180)"
proof -
  have lo: "- (63 * pi / 180) < theta * pi / 180"
    using radians_mono [OF assms(1)] by simp
  have hi: "theta * pi / 180 < pi / 2"
    using radians_mono [OF assms(2)] by simp
  have "0 < alpha_r + theta * pi / 180"
    using lo by (simp add: alpha_r_def)
  moreover have "alpha_r + theta * pi / 180 < pi"
  proof -
    have "alpha_r < pi / 2"
      using pi_gt_zero by (simp add: alpha_r_def)
    then show ?thesis using hi by linarith
  qed
  ultimately show "0 < sin (alpha_r + theta * pi / 180)"
    by (rule sin_gt_zero)
  have "- (pi / 2) < theta * pi / 180"
    using lo pi_gt_zero by linarith
  then show "0 < cos (theta * pi / 180)"
    using hi by (simp add: cos_gt_zero_pi)
qed

lemma rail_angle_inverse:
  fixes theta \<rho> :: real
  assumes "- 63 < theta" and "theta < 90" and "\<rho> \<noteq> 0"
  defines "t \<equiv> theta * pi / 180"
  defines "x \<equiv> \<rho> * sin t / (sin alpha_r * sin (alpha_r + t))"
  shows "\<rho> - x * sin (2 * alpha_r) / 2 \<noteq> 0"
    and "arctan (x * (sin alpha_r * sin alpha_r) / (\<rho> - x * sin (2 * alpha_r) / 2)) * 180 / pi = theta"
proof -
  have sa: "sin alpha_r \<noteq> 0" using sin_alpha_r_pos by simp
  have st: "sin (alpha_r + t) \<noteq> 0" and ct: "cos t \<noteq> 0"
    using sweep_angle_range [OF assms(1,2)] by (simp_all add: t_def)
  have den: "\<rho> - x * sin (2 * alpha_r) / 2 = \<rho> * sin alpha_r * cos t / sin (alpha_r + t)"
    unfolding x_def by (rule rail_denominator [OF sa st])
  show "\<rho> - x * sin (2 * alpha_r) / 2 \<noteq> 0"
    using den sa st ct assms(3) by simp
  have "x * (sin alpha_r * sin alpha_r) / (\<rho> - x * sin (2 * alpha_r) / 2) = tan t"
    unfolding den unfolding x_def by (rule rail_quotient [OF sa st ct assms(3)])
  moreover have "arctan (tan t) = t"
  proof (rule arctan_tan)
    have "- 90 < theta" using assms(1) by simp
    from radians_mono [OF this] show "- (pi / 2) < t"
      by (simp add: t_def)
    from radians_mono [OF assms(2)] show "t < pi / 2"
      by (simp add: t_def)
  qed
  ultimately show "arctan (x * (sin alpha_r * sin alpha_r) / (\<rho> - x * sin (2 * alpha_r) / 2)) * 180 / pi = theta"
    by (simp add: t_def)
qed

lemma ThetaToMotors_finite:
  fixes theta :: real
  assumes "- 63 < theta" and "theta < 90"
  shows "fst (ThetaToMotors (Fin theta) samz_offset)
           = Fin (r * sin (theta * pi / 180) / (sin alpha_r * sin (alpha_r + theta * pi / 180)))"
    and "fst (snd (ThetaToMotors (Fin theta) samz_offset))
           = Fin (R * sin (theta * pi / 180) / (sin alpha_r * sin (alpha_r + theta * pi / 180)))"
  using sin_alpha_r_pos sweep_angle_range(1) [OF assms]
  by (simp_all add: ThetaToMotors_def Let_def)

lemma x1ToTheta_ThetaToMotors:
  fixes theta :: real
  assumes "- 63 < theta" and "theta < 90"
  shows "x1ToTheta (fst (ThetaToMotors (Fin theta) samz_offset)) (Fin 0) = Fin theta"
  using rail_angle_inverse [OF assms, of r]
  by (simp add: ThetaToMotors_finite [OF assms] x1ToTheta_def Let_def fsub_def r_def)

lemma x2ToTheta_ThetaToMotors:
  fixes theta :: real
  assumes "- 63 < theta" and "theta < 90"
  shows "x2ToTheta (fst (snd (ThetaToMotors (Fin theta) samz_offset))) (Fin 0) = Fin theta"
  using rail_angle_inverse [OF assms, of R]
  by (simp add: ThetaToMotors_finite [OF assms] x2ToTheta_def Let_def fsub_def R_def)

lemma ThetaToMotors_at_zero: "ThetaToMotors (Fin 0) samz_offset = (Fin 0, Fin 0, Fin 0)"
  using sin_alpha_r_pos by (simp add: ThetaToMotors_def Let_def)


lemma theta_movement_one_put:
  "length (filter is_put (theta_movement hw tr theta samz_offset intr)) = 1"
proof -
  obtain x1_var x2_var z_var where t: "ThetaToMotors theta samz_offset = (x1_var, x2_var, z_var)"
    by (cases "ThetaToMotors theta samz_offset") auto
  have "filter is_put (try_interruptible body intr) = []"
    if "\<forall>c \<in> set body. \<not> is_put c" for body
    using that
    by (cases intr) (simp_all add: try_interruptible_def filter_take_none stop_def filter_empty_conv)
  then show ?thesis
    using t by (simp add: theta_movement_def Let_def waitAll_def)
qed

section \<open>The claims\<close>

text \<open>
  C1.  In every sequenced theta move, when the required depth \<open>z_var\<close> is greater than
  the depth read at the start, the depth move and the wait for it come before the two
  rail moves; when it is less than or equal, the two rail moves and the waits for both
  come before the depth move.  Without an interrupt the calls are exactly the listed
  ones; with an interrupt at any point the order still holds of the calls that were made.
\<close>

theorem theta_movement_sequencing:
  assumes "ThetaToMotors theta samz_offset = (x1_var, x2_var, z_var)"
  shows "(flt (hw tr Z) z_var \<longrightarrow>
            (\<exists>p. theta_movement hw tr theta samz_offset None =
                    [Mv Z z_var, Wait Z, Mv X1 x1_var, Mv X2 x2_var,
                     Wait Z, Wait X1, Wait X2, PutThetaPV p]) \<and>
            (\<forall>intr. preceded_by (is_wait Z) (\<lambda>c. is_mv X1 c \<or> is_mv X2 c)
                       (theta_movement hw tr theta samz_offset intr) \<and>
                     preceded_by (is_mv Z) (is_wait Z)
                       (theta_movement hw tr theta samz_offset intr))) \<and>
         (fle z_var (hw tr Z) \<longrightarrow>
            (\<exists>p. theta_movement hw tr theta samz_offset None =
                    [Mv X1 x1_var, Mv X2 x2_var, Wait X1, Wait X2, Mv Z z_var,
                     Wait Z, Wait X1, Wait X2, PutThetaPV p]) \<and>
            (\<forall>intr. preceded_by (is_wait X1) (is_mv Z)
                       (theta_movement hw tr theta samz_offset intr) \<and>
                     preceded_by (is_wait X2) (is_mv Z)
                       (theta_movement hw tr theta samz_offset intr) \<and>
                     preceded_by (is_mv X1) (is_wait X1)
                       (theta_movement hw tr theta samz_offset intr) \<and>
                     preceded_by (is_mv X2) (is_wait X2)
                       (theta_movement hw tr theta samz_offset intr)))"
proof (intro conjI impI allI)
  assume up: "flt (hw tr Z) z_var"
  let ?body = "[Mv Z z_var, Wait Z, Mv X1 x1_var, Mv X2 x2_var] @ waitAll"
  have tm: "theta_movement hw tr theta samz_offset intr =
              try_interruptible ?body intr @
              [PutThetaPV (wmTheta hw (tr @ try_interruptible ?body intr) (Fin 0))]" for intr
    using assms up by (simp add: theta_movement_def Let_def)
  show "\<exists>p. theta_movement hw tr theta samz_offset None =
               [Mv Z z_var, Wait Z, Mv X1 x1_var, Mv X2 x2_var,
                Wait Z, Wait X1, Wait X2, PutThetaPV p]"
    unfolding tm by (simp add: try_interruptible_def waitAll_def)
  fix intr
  show "preceded_by (is_wait Z) (\<lambda>c. is_mv X1 c \<or> is_mv X2 c)
          (theta_movement hw tr theta samz_offset intr)"
    unfolding tm by (rule preceded_by_interrupted) (simp_all add: waitAll_def stop_def)
  show "preceded_by (is_mv Z) (is_wait Z) (theta_movement hw tr theta samz_offset intr)"
    unfolding tm by (rule preceded_by_interrupted) (simp_all add: waitAll_def stop_def)
next
  assume "fle z_var (hw tr Z)"
  then have down: "\<not> flt (hw tr Z) z_var" by (rule fle_not_flt)
  let ?body = "[Mv X1 x1_var, Mv X2 x2_var, Wait X1, Wait X2, Mv Z z_var] @ waitAll"
  have tm: "theta_movement hw tr theta samz_offset intr =
              try_interruptible ?body intr @
              [PutThetaPV (wmTheta hw (tr @ try_interruptible ?body intr) (Fin 0))]" for intr
    using assms down by (simp add: theta_movement_def Let_def)
  show "\<exists>p. theta_movement hw tr theta samz_offset None =
               [Mv X1 x1_var, Mv X2 x2_var, Wait X1, Wait X2, Mv Z z_var,
                Wait Z, Wait X1, Wait X2, PutThetaPV p]"
    unfolding tm by (simp add: try_interruptible_def waitAll_def)
  fix intr
  show "preceded_by (is_wait X1) (is_mv Z) (theta_movement hw tr theta samz_offset intr)"
    unfolding tm by (rule preceded_by_interrupted) (simp_all add: waitAll_def stop_def)
  show "preceded_by (is_wait X2) (is_mv Z) (theta_movement hw tr theta samz_offset intr)"
    unfolding tm by (rule preceded_by_interrupted) (simp_all add: waitAll_def stop_def)
  show "preceded_by (is_mv X1) (is_wait X1) (theta_movement hw tr theta samz_offset intr)"
    unfolding tm by (rule preceded_by_interrupted) (simp_all add: waitAll_def stop_def)
  show "preceded_by (is_mv X2) (is_wait X2) (theta_movement hw tr theta samz_offset intr)"
    unfolding tm by (rule preceded_by_interrupted) (simp_all add: waitAll_def stop_def)
qed

text \<open>
  The move to theta = 0 (required depth 0), once from depth -1, where the depth has to
  increase, and once from depth 0, where it has not.
\<close>

theorem theta_movement_sequencing_witness:
  "ThetaToMotors (Fin 0) (Fin 0) = (Fin 0, Fin 0, Fin 0) \<and>
   flt (Fin (- 1)) (Fin 0) \<and>
   (\<exists>p. theta_movement (\<lambda>tr a. Fin (- 1)) [] (Fin 0) (Fin 0) None =
           [Mv Z (Fin 0), Wait Z, Mv X1 (Fin 0), Mv X2 (Fin 0),
            Wait Z, Wait X1, Wait X2, PutThetaPV p]) \<and>
   preceded_by (is_wait Z) (\<lambda>c. is_mv X1 c \<or> is_mv X2 c)
     (theta_movement (\<lambda>tr a. Fin (- 1)) [] (Fin 0) (Fin 0) (Some 3)) \<and>
   fle (Fin 0) (Fin 0) \<and>
   (\<exists>p. theta_movement (\<lambda>tr a. Fin 0) [] (Fin 0) (Fin 0) None =
           [Mv X1 (Fin 0), Mv X2 (Fin 0), Wait X1, Wait X2, Mv Z (Fin 0),
            Wait Z, Wait X1, Wait X2, PutThetaPV p]) \<and>
   preceded_by (is_wait X1) (is_mv Z)
     (theta_movement (\<lambda>tr a. Fin 0) [] (Fin 0) (Fin 0) (Some 3))"
  using theta_movement_sequencing [OF ThetaToMotors_at_zero, of "\<lambda>tr a. Fin (- 1)" "[]" "Fin 0"]
        theta_movement_sequencing [OF ThetaToMotors_at_zero, of "\<lambda>tr a. Fin 0" "[]" "Fin 0"]
        ThetaToMotors_at_zero [of "Fin 0"]
  by simp

text \<open>
  C2.  With a defined current angle \<open>theta_now\<close>: a move to \<open>theta\<close> with
  \<open>|theta - theta_now| \<le> 28\<close> is one sequenced sub-move to \<open>theta\<close>; a move with
  \<open>|theta - theta_now| > 28\<close> is two, the first to the midpoint \<open>(theta + theta_now) / 2\<close>,
  then the wait on the theta motor, then the second to \<open>theta\<close>.  Each sub-move publishes
  the readback once, so the number of publications is the number of sub-moves.  When the
  change is 40 degrees each of the two steps is at most 28 (it is 20).
\<close>

theorem moveTheta_split:
  assumes "self_theta s = Some position" and "position tr = Float (Fin theta_now)"
  shows "(\<bar>theta - theta_now\<bar> \<le> 28 \<longrightarrow>
            fst (moveTheta s hw tr (Fin theta) samz_offset intr1 intr2) =
              theta_movement hw tr (Fin theta) samz_offset intr1) \<and>
         (28 < \<bar>theta - theta_now\<bar> \<longrightarrow>
            (let first = theta_movement hw tr (Fin ((theta + theta_now) / 2)) samz_offset intr1
                           @ [Wait Theta]
             in fst (moveTheta s hw tr (Fin theta) samz_offset intr1 intr2) =
                  first @ theta_movement hw (tr @ first) (Fin theta) samz_offset intr2)) \<and>
         length (filter is_put (fst (moveTheta s hw tr (Fin theta) samz_offset intr1 intr2))) =
           (if \<bar>theta - theta_now\<bar> \<le> 28 then 1 else 2) \<and>
         (\<bar>theta - theta_now\<bar> = 40 \<longrightarrow>
            \<bar>(theta + theta_now) / 2 - theta_now\<bar> \<le> 28 \<and>
            \<bar>theta - (theta + theta_now) / 2\<bar> \<le> 28)"
proof (intro conjI impI)
  assume "\<bar>theta - theta_now\<bar> \<le> 28"
  then show "fst (moveTheta s hw tr (Fin theta) samz_offset intr1 intr2) =
               theta_movement hw tr (Fin theta) samz_offset intr1"
    using assms by (simp add: moveTheta_def fsub_def Let_def)
next
  assume "28 < \<bar>theta - theta_now\<bar>"
  then show "let first = theta_movement hw tr (Fin ((theta + theta_now) / 2)) samz_offset intr1
                           @ [Wait Theta]
             in fst (moveTheta s hw tr (Fin theta) samz_offset intr1 intr2) =
                  first @ theta_movement hw (tr @ first) (Fin theta) samz_offset intr2"
    using assms by (simp add: moveTheta_def fsub_def Let_def)
next
  show "length (filter is_put (fst (moveTheta s hw tr (Fin theta) samz_offset intr1 intr2))) =
          (if \<bar>theta - theta_now\<bar> \<le> 28 then 1 else 2)"
    using assms by (simp add: moveTheta_def fsub_def Let_def theta_movement_one_put)
next
  assume "\<bar>theta - theta_now\<bar> = 40"
  then show "\<bar>(theta + theta_now) / 2 - theta_now\<bar> \<le> 28"
    by (simp add: abs_if field_simps split: if_splits)
next
  assume "\<bar>theta - theta_now\<bar> = 40"
  then show "\<bar>theta - (theta + theta_now) / 2\<bar> \<le> 28"
    by (simp add: abs_if field_simps split: if_splits)
qed

text \<open>From 0 to 40 degrees: two sub-moves, by way of 20.  From 0 to 28: one.\<close>

theorem moveTheta_split_witness:
  "fst (moveTheta \<lparr>self_theta = Some (\<lambda>tr. Float (Fin 0)), self_XT = Some ''XT'',
                   lowlimX = None, hilimX = None\<rparr>
          (\<lambda>tr a. Fin 0) [] (Fin 40) (Fin 0) None None) =
     theta_movement (\<lambda>tr a. Fin 0) [] (Fin 20) (Fin 0) None @ [Wait Theta] @
     theta_movement (\<lambda>tr a. Fin 0)
       (theta_movement (\<lambda>tr a. Fin 0) [] (Fin 20) (Fin 0) None @ [Wait Theta])
       (Fin 40) (Fin 0) None \<and>
   length (filter is_put
     (fst (moveTheta \<lparr>self_theta = Some (\<lambda>tr. Float (Fin 0)), self_XT = Some ''XT'',
                       lowlimX = None, hilimX = None\<rparr>
             (\<lambda>tr a. Fin 0) [] (Fin 40) (Fin 0) None None))) = 2 \<and>
   fst (moveTheta \<lparr>self_theta = Some (\<lambda>tr. Float (Fin 0)), self_XT = Some ''XT'',
                   lowlimX = None, hilimX = None\<rparr>
          (\<lambda>tr a. Fin 0) [] (Fin 28) (Fin 0) None None) =
     theta_movement (\<lambda>tr a. Fin 0) [] (Fin 28) (Fin 0) None"
  using moveTheta_split
          [of "\<lparr>self_theta = Some (\<lambda>tr. Float (Fin 0)), self_XT = Some ''XT'',
                 lowlimX = None, hilimX = None\<rparr>"
              "\<lambda>tr. Float (Fin 0)" "[]" 0 40 "\<lambda>tr a. Fin 0" "Fin 0" None None]
        moveTheta_split
          [of "\<lparr>self_theta = Some (\<lambda>tr. Float (Fin 0)), self_XT = Some ''XT'',
                 lowlimX = None, hilimX = None\<rparr>"
              "\<lambda>tr. Float (Fin 0)" "[]" 0 28 "\<lambda>tr a. Fin 0" "Fin 0" None None]
  by (simp add: Let_def theta_movement_one_put)


text \<open>
  C3.  For every energy \<open>e > 0\<close> whose arcsine argument \<open>hc / (e * 2 * d)\<close> lies in
  \<open>[-1, 1]\<close> (\<open>hc = 12398.419\<close>, \<open>d\<close> the spacing the converter uses), the energy is turned
  into a finite angle and that angle back into \<open>e\<close>: the two directions are inverse to
  each other there, and the recovered energy is within \<open>|e| / 10^9\<close>.
  Arithmetic is exact here, so the recovered energy is \<open>e\<close> itself.
\<close>

theorem energy_angle_roundtrip:
  assumes "0 < e"
    and "- 1 \<le> 12398.419 / (e * 2 * 3.13560114)"
    and "12398.419 / (e * 2 * 3.13560114) \<le> 1"
  shows "\<exists>a e'. energyToSi111BraggAngle (Fin e) = Inr (Fin a) \<and>
                thetaToSi111energy (Fin a) = Fin e' \<and>
                \<bar>e' - e\<bar> \<le> \<bar>e\<bar> / 10 ^ 9 \<and> e' = e"
proof -
  define q :: real where "q = 12398.419 / e / (2 * 3.13560114)"
  have q_eq: "q = 12398.419 / (e * 2 * 3.13560114)"
    by (simp add: q_def)
  have q_pos: "0 < q" using assms(1) by (simp add: q_def)
  have q_le: "- 1 \<le> q" "q \<le> 1" using assms q_eq by simp_all
  have fwd: "energyToSi111BraggAngle (Fin e) = Inr (Fin (arcsin q * (180 / pi)))"
    using assms(1) q_le
    by (simp add: energyToSi111BraggAngle_def py_div_def np_rad2deg_def Let_def q_def)
  have s: "sin (arcsin q) = q" using q_le by simp
  have "thetaToSi111energy (Fin (arcsin q * (180 / pi))) = Fin (12398.419 / (2 * 3.13560114 * q))"
    using q_pos s by (simp add: thetaToSi111energy_def np_deg2rad_def Let_def)
  moreover have "12398.419 / (2 * 3.13560114 * q) = e"
    using assms(1) by (simp add: q_def field_simps)
  ultimately have "thetaToSi111energy (Fin (arcsin q * (180 / pi))) = Fin e"
    by simp
  with fwd show ?thesis by simp
qed

text \<open>At 8000, where the arcsine argument is about 0.247.\<close>

theorem energy_angle_roundtrip_witness:
  "(0::real) < 8000 \<and>
   - 1 \<le> (12398.419::real) / (8000 * 2 * 3.13560114) \<and>
   (12398.419::real) / (8000 * 2 * 3.13560114) \<le> 1 \<and>
   (\<exists>a. energyToSi111BraggAngle (Fin 8000) = Inr (Fin a) \<and>
        thetaToSi111energy (Fin a) = Fin 8000)"
  using energy_angle_roundtrip [of 8000] by simp

text \<open>
  C4.  For theta among 5, 10, 27 and 45 degrees, the rail positions that
  \<open>ThetaToMotors\<close> computes (sample offset 0) are turned back by \<open>x1ToTheta\<close> and by
  \<open>x2ToTheta\<close> (sample offset 0), each on its own rail, into an angle within 0.01
  degrees of theta.
\<close>

theorem rails_roundtrip:
  assumes "theta \<in> {5, 10, 27, 45}"
  shows "\<exists>x1 x2 dz t1 t2.
           ThetaToMotors (Fin theta) (Fin 0) = (x1, x2, dz) \<and>
           x1ToTheta x1 (Fin 0) = Fin t1 \<and> x2ToTheta x2 (Fin 0) = Fin t2 \<and>
           \<bar>t1 - theta\<bar> < 0.01 \<and> \<bar>t2 - theta\<bar> < 0.01"
proof -
  have range: "- 63 < theta" "theta < 90"
    using assms by auto
  obtain x1 x2 dz where t: "ThetaToMotors (Fin theta) (Fin 0) = (x1, x2, dz)"
    by (cases "ThetaToMotors (Fin theta) (Fin 0)") auto
  have "x1ToTheta x1 (Fin 0) = Fin theta"
    using x1ToTheta_ThetaToMotors [OF range, of "Fin 0"] t by simp
  moreover have "x2ToTheta x2 (Fin 0) = Fin theta"
    using x2ToTheta_ThetaToMotors [OF range, of "Fin 0"] t by simp
  ultimately show ?thesis
    using t by simp
qed

theorem rails_roundtrip_witness:
  "(27::real) \<in> {5, 10, 27, 45} \<and>
   (\<exists>x1 x2 dz t1 t2.
      ThetaToMotors (Fin 27) (Fin 0) = (x1, x2, dz) \<and>
      x1ToTheta x1 (Fin 0) = Fin t1 \<and> x2ToTheta x2 (Fin 0) = Fin t2 \<and>
      \<bar>t1 - 27\<bar> < 0.01 \<and> \<bar>t2 - 27\<bar> < 0.01)"
  using rails_roundtrip [of 27] by simp

text \<open>
  C5.  With a sample offset that is not greater than 0, the theta readback is the angle
  derived from x1 when the two derived angles are both defined and differ by less than
  0.01 degrees, and not-a-number in every other case; no other value is returned.
\<close>

theorem wmTheta_agreement:
  assumes "\<not> flt (Fin 0) samz_offset"
  shows "wmTheta hw tr samz_offset =
           (if \<exists>t1 t2. x1ToTheta (hw tr X1) samz_offset = Fin t1 \<and>
                       x2ToTheta (hw tr X2) samz_offset = Fin t2 \<and> \<bar>t1 - t2\<bar> < 0.01
            then Angle (x1ToTheta (hw tr X1) samz_offset)
            else Angle NaN)"
  using assms by (simp add: wmTheta_def Let_def agree_iff)

text \<open>
  Both rails at 0: the angles agree (both 0).  The second rail's position unknown: the
  readback is undefined.
\<close>

theorem wmTheta_agreement_witness:
  "\<not> flt (Fin 0) (Fin 0) \<and>
   wmTheta (\<lambda>tr a. Fin 0) [] (Fin 0) = Angle (Fin 0) \<and>
   wmTheta (\<lambda>tr a. if a = X1 then Fin 0 else NaN) [] (Fin 0) = Angle NaN"
  using wmTheta_agreement [of "Fin 0" "\<lambda>tr a. Fin 0" "[]"]
        wmTheta_agreement [of "Fin 0" "\<lambda>tr a. if a = X1 then Fin 0 else NaN" "[]"]
  by (simp add: x1ToTheta_def x2ToTheta_def fsub_def r_def R_def Let_def)

text \<open>
  C6.  \<open>ThetaToMotors(0)\<close> is exactly (0, 0, 0), whatever the sample offset: both rail
  targets are 0 and the depth offset is set to 0.  The depth formula itself is
  degenerate there (its second term is 0/0, not-a-number), and that value does not reach
  the caller.
\<close>

theorem ThetaToMotors_zero:
  "ThetaToMotors (Fin 0) samz_offset = (Fin 0, Fin 0, Fin 0) \<and>
   fsub (fdiv (Fin r) (np_sin (Fin alpha_r)))
        (fdiv (fmul (Fin 0) (np_sin (Fin alpha_r))) (np_sin (Fin 0))) = NaN"
  using sin_alpha_r_pos by (simp add: ThetaToMotors_at_zero fsub_def)

theorem ThetaToMotors_zero_witness:
  "ThetaToMotors (Fin 0) (Fin 0) = (Fin 0, Fin 0, Fin 0)"
  using ThetaToMotors_zero [of "Fin 0"] by simp


text \<open>
  C7.  The claim is that an energy whose arcsine argument falls outside \<open>[-1, 1]\<close> makes
  the conversion raise.  At energy 1 the argument is about 1977 and the conversion
  returns not-a-number without raising.
\<close>

theorem energyToSi111BraggAngle_raises_counterexample:
  "\<not> (- 1 \<le> (12398.419::real) / (1 * 2 * 3.13560114) \<and>
      (12398.419::real) / (1 * 2 * 3.13560114) \<le> 1) \<and>
   energyToSi111BraggAngle (Fin 1) = Inr NaN"
  by (simp add: energyToSi111BraggAngle_def py_div_def np_rad2deg_def Let_def)

text \<open>
  C7, as the code has it.  For every finite non-zero energy whose arcsine argument
  falls outside \<open>[-1, 1]\<close> the conversion raises nothing and returns not-a-number; the
  argument is not clamped (a clamped argument would give 90 or -90 degrees).
\<close>

theorem energyToSi111BraggAngle_out_of_domain:
  assumes "e \<noteq> 0"
    and "\<not> (- 1 \<le> 12398.419 / (e * 2 * 3.13560114) \<and> 12398.419 / (e * 2 * 3.13560114) \<le> 1)"
  shows "energyToSi111BraggAngle (Fin e) = Inr NaN"
proof -
  define q :: real where "q = 12398.419 / (e * 2 * 3.13560114)"
  have q: "12398.419 / e / (2 * 3.13560114) = q"
    by (simp add: q_def)
  have "\<not> (- 1 \<le> q \<and> q \<le> 1)"
    unfolding q_def by (rule assms(2))
  then have "np_arcsin (Fin q) = NaN"
    by simp
  moreover have "energyToSi111BraggAngle (Fin e) = Inr (np_rad2deg (np_arcsin (Fin q)))"
    using assms(1) q
    by (simp add: energyToSi111BraggAngle_def py_div_def Let_def del: np_arcsin.simps)
  ultimately show ?thesis
    by (simp add: np_rad2deg_def)
qed

theorem energyToSi111BraggAngle_out_of_domain_witness:
  "(4::real) \<noteq> 0 \<and>
   \<not> (- 1 \<le> (12398.419::real) / (4 * 2 * 3.13560114) \<and>
      (12398.419::real) / (4 * 2 * 3.13560114) \<le> 1) \<and>
   energyToSi111BraggAngle (Fin 4) = Inr NaN"
  using energyToSi111BraggAngle_out_of_domain [of 4] by simp

text \<open>
  C8.  The claim is that every absolute target outside the cached window makes \<open>moveX\<close>
  log a refusal and end without raising.  The refusal's text reads the name of the
  horizontal virtual motor, which is \<open>None\<close> after construction: with the limits -10
  and 10 cached, that motor not attached and the target 11, \<open>moveX\<close> raises
  \<open>AttributeError\<close> and logs nothing.
\<close>

theorem moveX_refusal_raises_counterexample:
  "lowlimX \<lparr>self_theta = None, self_XT = None,
            lowlimX = Some (Fin (- 10)), hilimX = Some (Fin 10)\<rparr> = Some (Fin (- 10)) \<and>
   hilimX \<lparr>self_theta = None, self_XT = None,
           lowlimX = Some (Fin (- 10)), hilimX = Some (Fin 10)\<rparr> = Some (Fin 10) \<and>
   flt (Fin 10) (Fin 11) \<and>
   moveX \<lparr>self_theta = None, self_XT = None,
          lowlimX = Some (Fin (- 10)), hilimX = Some (Fin 10)\<rparr>
     (\<lambda>tr a. Fin 0) [] (Fin 11) None = ([], Inl AttributeError)"
  by (simp add: moveX_def Let_def)

text \<open>
  C8, as the code has it.  With both soft limits cached, an absolute target outside the
  window makes \<open>moveX\<close> issue no move at all; with the horizontal virtual motor attached
  the method ends normally and its only action is the logged refusal.  \<open>tweakH\<close> never
  looks at the limits: whatever they are and whatever the target is, it ends normally,
  an uninterrupted run commands its three relative moves, and the calls are the same
  for every controller state.
\<close>

theorem moveX_soft_limit:
  assumes "lowlimX s = Some lo" and "hilimX s = Some hi" and "flt x lo \<or> flt hi x"
  shows "filter is_move (fst (moveX s hw tr x intr)) = [] \<and>
         (self_XT s \<noteq> None \<longrightarrow> moveX s hw tr x intr = ([LogDebug], Inr ())) \<and>
         (\<forall>x' s'. snd (tweakH s' hw tr x' None) = Inr () \<and>
                  length (filter is_move (fst (tweakH s' hw tr x' None))) = 3 \<and>
                  tweakH s' hw tr x' intr = tweakH s hw tr x' intr)"
proof -
  have refuse: "fle x lo \<or> (\<not> fle x lo \<and> fle hi x)"
    using assms(3) flt_fle by blast
  have "filter is_move (fst (moveX s hw tr x intr)) = []"
    using assms(1,2) refuse by (auto simp: moveX_def Let_def split: option.splits)
  moreover have "moveX s hw tr x intr = ([LogDebug], Inr ())" if "self_XT s \<noteq> None"
    using assms(1,2) refuse that by (auto simp: moveX_def Let_def split: option.splits)
  moreover have "snd (tweakH s' hw tr x' None) = Inr ()" for s' x'
    by (simp add: tweakH_def Let_def)
  moreover have "length (filter is_move (fst (tweakH s' hw tr x' None))) = 3" for s' x'
    by (simp add: tweakH_def Let_def try_interruptible_def)
  moreover have "tweakH s' hw tr x' intr = tweakH s hw tr x' intr" for s' x'
    by (simp add: tweakH_def)
  ultimately show ?thesis by blast
qed

text \<open>Limits -10 and 10, target 11: refused by \<open>moveX\<close>, carried out by \<open>tweakH\<close>.\<close>

theorem moveX_soft_limit_witness:
  "flt (Fin 10) (Fin 11) \<and>
   moveX \<lparr>self_theta = None, self_XT = Some ''XT'',
          lowlimX = Some (Fin (- 10)), hilimX = Some (Fin 10)\<rparr>
     (\<lambda>tr a. Fin 0) [] (Fin 11) None = ([LogDebug], Inr ()) \<and>
   length (filter is_move
     (fst (tweakH \<lparr>self_theta = None, self_XT = Some ''XT'',
                   lowlimX = Some (Fin (- 10)), hilimX = Some (Fin 10)\<rparr>
             (\<lambda>tr a. Fin 0) [] (Fin 11) None))) = 3"
  using moveX_soft_limit
          [of "\<lparr>self_theta = None, self_XT = Some ''XT'',
                 lowlimX = Some (Fin (- 10)), hilimX = Some (Fin 10)\<rparr>"
              "Fin (- 10)" "Fin 10" "Fin 11" "\<lambda>tr a. Fin 0" "[]" None]
  by simp

text \<open>
  C9.  The claim is that both directions compute with the module's default spacing
  3.1356011499587773.  Both use the literal 3.13560114 instead.  At 90 degrees the
  inverse direction returns \<open>hc / (2 * 3.13560114)\<close>, which is not the energy the default
  spacing gives; and the energy that the default spacing puts exactly at 90 degrees is
  outside the forward direction's domain.
\<close>

theorem dspacing_not_default:
  "thetaToSi111energy (Fin 90) = Fin (12398.419 / (2 * 3.13560114)) \<and>
   thetaToSi111energy (Fin 90) \<noteq> Fin (12398.419 / (2 * default_dspacing)) \<and>
   energyToSi111BraggAngle (Fin (12398.419 / (2 * default_dspacing))) = Inr NaN \<and>
   np_rad2deg (np_arcsin (fdiv (fdiv (Fin 12398.419) (Fin (12398.419 / (2 * default_dspacing))))
                               (fmul (Fin 2) (Fin default_dspacing)))) = Fin 90"
proof (intro conjI)
  show inv: "thetaToSi111energy (Fin 90) = Fin (12398.419 / (2 * 3.13560114))"
    by (simp add: thetaToSi111energy_def np_deg2rad_def Let_def)
  show "thetaToSi111energy (Fin 90) \<noteq> Fin (12398.419 / (2 * default_dspacing))"
    unfolding inv by (simp add: default_dspacing_def si_111_dspacing_def)
  show "energyToSi111BraggAngle (Fin (12398.419 / (2 * default_dspacing))) = Inr NaN"
    by (simp add: energyToSi111BraggAngle_def py_div_def np_rad2deg_def Let_def
          default_dspacing_def si_111_dspacing_def)
  show "np_rad2deg (np_arcsin (fdiv (fdiv (Fin 12398.419) (Fin (12398.419 / (2 * default_dspacing))))
                                    (fmul (Fin 2) (Fin default_dspacing)))) = Fin 90"
    by (simp add: np_rad2deg_def default_dspacing_def si_111_dspacing_def)
qed

text \<open>
  C10.  The claim is that the vertical-angle readback uses each rail's own radius.  It
  applies the short rail's conversion to both heights.  With the short rail at height 0
  and the long rail at height 2960 it returns 45 degrees, where the long rail's own
  conversion gives \<open>arctan (2960 / 6735)\<close>, less than 45 degrees.
\<close>

theorem wmGamma_short_rail_radius:
  "fst (wmGamma (\<lambda>tr a. if a = Y2 then Fin 2960 else Fin 0) []) = Fin 45 \<and>
   fsub (y2ToGamma (Fin 2960)) (y1ToGamma (Fin 0)) = Fin (arctan (2960 / 6735) * 180 / pi) \<and>
   arctan (2960 / 6735) * 180 / pi < (45::real)"
proof (intro conjI)
  show "fst (wmGamma (\<lambda>tr a. if a = Y2 then Fin 2960 else Fin 0) []) = Fin 45"
    by (simp add: wmGamma_def y1ToGamma_def r_def Let_def fsub_def arctan_one)
  show "fsub (y2ToGamma (Fin 2960)) (y1ToGamma (Fin 0)) = Fin (arctan (2960 / 6735) * 180 / pi)"
    by (simp add: y1ToGamma_def y2ToGamma_def r_def R_def Let_def fsub_def)
  have "arctan (2960 / 6735) < arctan (1::real)"
    by (simp add: arctan_less_iff)
  then have "arctan (2960 / 6735) < pi / 4"
    by (simp add: arctan_one)
  then have "arctan (2960 / 6735) * 180 < pi * 45"
    by simp
  then show "arctan (2960 / 6735) * 180 / pi < (45::real)"
    using pi_gt_zero by (simp add: pos_divide_less_eq mult.commute)
qed

end
